theory Spec2Isabelle
  imports Main
begin

section \<open>Python values used by the command builders\<close>

text \<open>
  The three modules under \<^verbatim>\<open>src/cai/tools\<close> build one shell command per call and hand
  it to \<^verbatim>\<open>run_command\<close>. A Python \<^verbatim>\<open>str\<close> is modelled as a \<^typ>\<open>string\<close>: an ASCII
  character is one \<^typ>\<open>char\<close>, any other code point is the sequence of its UTF-8 bytes
  (all of them above 127). A Python \<^verbatim>\<open>int\<close> is an \<^typ>\<open>int\<close>. A parameter with a default
  value is an \<open>option\<close>: \<open>None\<close> is the call that omits it. The context \<^verbatim>\<open>ctf\<close> is
  opaque; \<open>None\<close> is Python's \<^verbatim>\<open>None\<close>.
\<close>

definition param :: "'a \<Rightarrow> 'a option \<Rightarrow> 'a" where
  "param dflt given = (case given of None \<Rightarrow> dflt | Some v \<Rightarrow> v)"

text \<open>\<^verbatim>\<open>sep.join(parts)\<close>.\<close>

fun join :: "string \<Rightarrow> string list \<Rightarrow> string" where
  "join sep [] = []"
| "join sep [x] = x"
| "join sep (x # y # ys) = x @ sep @ join sep (y # ys)"

text \<open>
  \<^verbatim>\<open>str.upper()\<close> and \<^verbatim>\<open>str.lower()\<close>. On ASCII letters they are the usual maps. On
  other code points Python applies the Unicode case mappings, which never delete a
  character; no code point but \<^verbatim>\<open>l\<close> and \<^verbatim>\<open>L\<close> (\<^verbatim>\<open>r\<close> and \<^verbatim>\<open>R\<close>) has the upper-case form
  \<^verbatim>\<open>L\<close> (\<^verbatim>\<open>R\<close>), and no code point but an ASCII letter has a lower-case form with a letter
  of \<^verbatim>\<open>upload\<close> or \<^verbatim>\<open>download\<close>. The model leaves the bytes of non-ASCII code points
  unchanged, so every comparison the builders make has the outcome it has in Python.
\<close>

definition ascii_lowercase :: string where
  "ascii_lowercase = ''abcdefghijklmnopqrstuvwxyz''"

definition ascii_uppercase :: string where
  "ascii_uppercase = ''ABCDEFGHIJKLMNOPQRSTUVWXYZ''"

definition char_upper :: "char \<Rightarrow> char" where
  "char_upper c = (case map_of (zip ascii_lowercase ascii_uppercase) c of
                     None \<Rightarrow> c | Some u \<Rightarrow> u)"

definition char_lower :: "char \<Rightarrow> char" where
  "char_lower c = (case map_of (zip ascii_uppercase ascii_lowercase) c of
                     None \<Rightarrow> c | Some l \<Rightarrow> l)"

definition str_upper :: "string \<Rightarrow> string" where
  "str_upper s = map char_upper s"

definition str_lower :: "string \<Rightarrow> string" where
  "str_lower s = map char_lower s"

text \<open>
  Exceptions: the \<^verbatim>\<open>ValueError\<close> a builder can raise by itself, and whatever the executor
  raises, by its text.
\<close>

datatype exn = ValueError | Exception string

text \<open>
  The decimal form of an integer: digits, a minus sign for a negative number.
\<close>

definition digit_char :: "nat \<Rightarrow> char" where
  "digit_char d = ''0123456789'' ! d"

function str_nat :: "nat \<Rightarrow> string" where
  "str_nat n = (if n < 10 then [digit_char n]
                else str_nat (n div 10) @ [digit_char (n mod 10)])"
  by pat_completeness auto
termination
  by (relation "measure id") auto

declare str_nat.simps [simp del]

definition decimal :: "int \<Rightarrow> string" where
  "decimal i = (if i < 0 then CHR ''-'' # str_nat (nat (- i)) else str_nat (nat i))"

definition digit_count :: "int \<Rightarrow> nat" where
  "digit_count i = length (str_nat (nat \<bar>i\<bar>))"

text \<open>
  \<^verbatim>\<open>str(n)\<close> for an integer, as an f-string renders it. CPython refuses the conversion
  with a \<^verbatim>\<open>ValueError\<close> when the number has more digits (the sign not counted) than
  \<^verbatim>\<open>sys.get_int_max_str_digits()\<close>, 4300 unless the interpreter is configured otherwise.
  The cap is in force in every version that accepts the f-string of \<^verbatim>\<open>smb_list_shares\<close>.
\<close>

definition int_max_str_digits :: nat where
  "int_max_str_digits = 4300"

definition str_int :: "int \<Rightarrow> exn + string" where
  "str_int i = (if int_max_str_digits < digit_count i then Inl ValueError
                else Inr (decimal i))"

text \<open>\<^verbatim>\<open>s.replace(old, new)\<close> for a one-character \<^verbatim>\<open>old\<close>.\<close>

definition replace_char :: "char \<Rightarrow> string \<Rightarrow> string \<Rightarrow> string" where
  "replace_char old new s = concat (map (\<lambda>c. if c = old then new else [c]) s)"

text \<open>\<^verbatim>\<open>os.path.basename\<close> (posixpath): what follows the last slash.\<close>

definition basename :: "string \<Rightarrow> string" where
  "basename p = rev (takeWhile (\<lambda>c. c \<noteq> CHR ''/'') (rev p))"

text \<open>
  \<^verbatim>\<open>shlex.quote\<close>: the empty string becomes two single quotes, a string of safe
  characters (ASCII letters, digits and \<^verbatim>\<open>_@%+=:,./-\<close>) is returned as it is, any other
  string is wrapped in single quotes with every single quote of it replaced by
  \<^verbatim>\<open>'"'"'\<close>.
\<close>

definition sq :: char where
  "sq = CHR 0x27"

definition dq :: char where
  "dq = CHR 0x22"

definition backslash :: char where
  "backslash = CHR 0x5C"

definition shlex_safe :: "char \<Rightarrow> bool" where
  "shlex_safe c \<longleftrightarrow>
     c \<in> set ascii_lowercase \<or> c \<in> set ascii_uppercase \<or> c \<in> set ''0123456789''
     \<or> c \<in> set ''_@%+=:,./-''"

definition shlex_quote :: "string \<Rightarrow> string" where
  "shlex_quote s =
     (if s = [] then [sq, sq]
      else if list_all shlex_safe s then s
      else [sq] @ replace_char sq [sq, dq, sq, dq, sq] s @ [sq])"

section \<open>The executor\<close>

text \<open>
  \<^verbatim>\<open>run_command\<close> is imported from \<^verbatim>\<open>cai.tools.common\<close>; the builders only call it.
  An executor takes the command and the context and returns text or raises. The outcome
  of a builder is what the call gives back (a returned string, or the exception that
  left it, the builder's own or the executor's) together with the executor invocations
  it made, in order.
\<close>

type_synonym 'c executor = "string \<Rightarrow> 'c option \<Rightarrow> exn + string"

type_synonym 'c outcome = "(exn + string) \<times> (string \<times> 'c option) list"

definition run_command :: "'c executor \<Rightarrow> string \<Rightarrow> 'c option \<Rightarrow> 'c outcome" where
  "run_command exec cmd ctf = (exec cmd ctf, [(cmd, ctf)])"

definition return_str :: "string \<Rightarrow> 'c outcome" where
  "return_str s = (Inr s, [])"

definition raise_exn :: "exn \<Rightarrow> 'c outcome" where
  "raise_exn e = (Inl e, [])"

text \<open>An executor that fails whenever it is invoked (the test double of the spec).\<close>

definition failing_executor :: "'c executor" where
  "failing_executor cmd ctf = Inl (Exception ''executor invoked'')"

section \<open>Data exfiltration builders (\<^verbatim>\<open>exfiltration_tools.py\<close>)\<close>

definition compress_directory ::
  "'c executor \<Rightarrow> string \<Rightarrow> string option \<Rightarrow> 'c option \<Rightarrow> 'c outcome" where
  "compress_directory exec directory archive_name_arg ctf =
     (let archive_name = param ''archive.tar.gz'' archive_name_arg;
          cmd = ''tar czf '' @ archive_name @ '' -C '' @ directory @ '' .''
      in run_command exec cmd ctf)"

definition scp_upload ::
  "'c executor \<Rightarrow> string \<Rightarrow> string \<Rightarrow> string \<Rightarrow> string \<Rightarrow> string option \<Rightarrow> string option
     \<Rightarrow> 'c option \<Rightarrow> 'c outcome" where
  "scp_upload exec local_file remote_path user host port_arg identity_file_arg ctf =
     (let port = param ''22'' port_arg;
          identity_file = param [] identity_file_arg;
          scp_parts = [''scp'', ''-P'', port];
          scp_parts = (if identity_file \<noteq> [] then scp_parts @ [''-i'', identity_file]
                       else scp_parts);
          scp_parts = scp_parts @ [local_file, user @ ''@'' @ host @ '':'' @ remote_path];
          cmd = join '' '' scp_parts
      in run_command exec cmd ctf)"

definition scp_download ::
  "'c executor \<Rightarrow> string \<Rightarrow> string \<Rightarrow> string \<Rightarrow> string \<Rightarrow> string option \<Rightarrow> string option
     \<Rightarrow> 'c option \<Rightarrow> 'c outcome" where
  "scp_download exec remote_file local_path user host port_arg identity_file_arg ctf =
     (let port = param ''22'' port_arg;
          identity_file = param [] identity_file_arg;
          scp_parts = [''scp'', ''-P'', port];
          scp_parts = (if identity_file \<noteq> [] then scp_parts @ [''-i'', identity_file]
                       else scp_parts);
          scp_parts = scp_parts @ [user @ ''@'' @ host @ '':'' @ remote_file, local_path];
          cmd = join '' '' scp_parts
      in run_command exec cmd ctf)"

definition base64_encode_file :: "'c executor \<Rightarrow> string \<Rightarrow> 'c option \<Rightarrow> 'c outcome" where
  "base64_encode_file exec file_path ctf = run_command exec (''base64 '' @ file_path) ctf"

definition upload_http ::
  "'c executor \<Rightarrow> string \<Rightarrow> string \<Rightarrow> string option \<Rightarrow> 'c option \<Rightarrow> 'c outcome" where
  "upload_http exec url file_path field_name_arg ctf =
     (let field_name = param ''file'' field_name_arg;
          cmd = ''curl -X POST -F '' @ [sq] @ field_name @ ''=@'' @ file_path @ [sq]
                @ '' '' @ url
      in run_command exec cmd ctf)"

definition split_file ::
  "'c executor \<Rightarrow> string \<Rightarrow> int option \<Rightarrow> 'c option \<Rightarrow> 'c outcome" where
  "split_file exec file_path chunk_size_mb_arg ctf =
     (let chunk_size_mb = param 10 chunk_size_mb_arg;
          base = basename file_path;
          prefix = base @ ''.part''
      in case str_int chunk_size_mb of
           Inl e \<Rightarrow> raise_exn e
         | Inr chunk \<Rightarrow>
             let cmd = ''split -b '' @ chunk @ ''M '' @ file_path @ '' '' @ prefix
             in run_command exec cmd ctf)"

definition compress_and_encrypt ::
  "'c executor \<Rightarrow> string \<Rightarrow> string option \<Rightarrow> string option \<Rightarrow> 'c option \<Rightarrow> 'c outcome" where
  "compress_and_encrypt exec directory archive_name_arg password_arg ctf =
     (let archive_name = param ''archive.zip'' archive_name_arg;
          password = param [] password_arg;
          quoted_dir = shlex_quote directory;
          cmd = (if password \<noteq> []
                 then ''zip -r -P '' @ shlex_quote password @ '' '' @ archive_name
                      @ '' '' @ quoted_dir
                 else ''zip -r '' @ archive_name @ '' '' @ quoted_dir)
      in run_command exec cmd ctf)"

section \<open>Lateral movement builders (\<^verbatim>\<open>ssh_tools.py\<close>)\<close>

definition ssh_exec ::
  "'c executor \<Rightarrow> string \<Rightarrow> string \<Rightarrow> string \<Rightarrow> string option \<Rightarrow> string option
     \<Rightarrow> 'c option \<Rightarrow> 'c outcome" where
  "ssh_exec exec user host command port_arg identity_file_arg ctf =
     (let port = param ''22'' port_arg;
          identity_file = param [] identity_file_arg;
          ssh_parts = [''ssh'', ''-p'', port];
          ssh_parts = (if identity_file \<noteq> [] then ssh_parts @ [''-i'', identity_file]
                       else ssh_parts);
          ssh_parts = ssh_parts @ [user @ ''@'' @ host];
          ssh_parts = ssh_parts @ [[dq] @ command @ [dq]];
          full_cmd = join '' '' ssh_parts
      in run_command exec full_cmd ctf)"

definition ping_host ::
  "'c executor \<Rightarrow> string \<Rightarrow> int option \<Rightarrow> 'c option \<Rightarrow> 'c outcome" where
  "ping_host exec host count_arg ctf =
     (let count = param 4 count_arg
      in case str_int count of
           Inl e \<Rightarrow> raise_exn e
         | Inr n \<Rightarrow> run_command exec (''ping -c '' @ n @ '' '' @ host) ctf)"

definition ssh_tunnel ::
  "'c executor \<Rightarrow> int \<Rightarrow> string \<Rightarrow> int \<Rightarrow> string \<Rightarrow> string \<Rightarrow> string option
     \<Rightarrow> string option \<Rightarrow> 'c option \<Rightarrow> 'c outcome" where
  "ssh_tunnel exec local_port remote_host remote_port user host direction_arg
       identity_file_arg ctf =
     (let direction = str_upper (param ''L'' direction_arg);
          identity_file = param [] identity_file_arg
      in if direction \<notin> {''L'', ''R''} then return_str ''Direction must be 'L' or 'R'.''
         else
           let ssh_parts = [''ssh'', ''-f'', ''-N''];
               ssh_parts = (if identity_file \<noteq> [] then ssh_parts @ [''-i'', identity_file]
                            else ssh_parts)
           in case str_int local_port of
                Inl e \<Rightarrow> raise_exn e
              | Inr lport \<Rightarrow>
                  (case str_int remote_port of
                     Inl e \<Rightarrow> raise_exn e
                   | Inr rport \<Rightarrow>
                       let ssh_parts = ssh_parts @ [''-'' @ direction,
                                         lport @ '':'' @ remote_host @ '':'' @ rport];
                           ssh_parts = ssh_parts @ [user @ ''@'' @ host];
                           cmd = join '' '' ssh_parts
                       in run_command exec cmd ctf))"

definition smb_list_shares ::
  "'c executor \<Rightarrow> string \<Rightarrow> string option \<Rightarrow> string option \<Rightarrow> string option
     \<Rightarrow> 'c option \<Rightarrow> 'c outcome" where
  "smb_list_shares exec host user_arg password_arg domain_arg ctf =
     (let user = param [] user_arg;
          password = param [] password_arg;
          domain = param [] domain_arg;
          auth = (if user \<noteq> []
                  then
                    let pw = (if password \<noteq> [] then replace_char CHR ''%'' ''%%'' password
                              else [])
                    in ''-U '' @ (if domain \<noteq> [] then domain @ [backslash] else [])
                         @ user @ ''%'' @ pw
                  else ''-N'');
          cmd = ''smbclient -L //'' @ host @ '' '' @ auth @ '' -g''
      in run_command exec cmd ctf)"

definition rsync_transfer ::
  "'c executor \<Rightarrow> string \<Rightarrow> string \<Rightarrow> string \<Rightarrow> string \<Rightarrow> string option \<Rightarrow> string option
     \<Rightarrow> string option \<Rightarrow> 'c option \<Rightarrow> 'c outcome" where
  "rsync_transfer exec local_path remote_path user host port_arg identity_file_arg
       direction_arg ctf =
     (let port = param ''22'' port_arg;
          identity_file = param [] identity_file_arg;
          direction = str_lower (param ''upload'' direction_arg);
          ssh_opts = [''ssh'', ''-p'', port];
          ssh_opts = (if identity_file \<noteq> [] then ssh_opts @ [''-i'', identity_file]
                      else ssh_opts);
          remote = user @ ''@'' @ host @ '':'' @ remote_path;
          ssh_cmd = join '' '' ssh_opts;
          base_cmd = [''rsync'', ''-avz'', ''-e'', [dq] @ ssh_cmd @ [dq]]
      in if direction = ''upload''
         then run_command exec (join '' '' (base_cmd @ [local_path, remote])) ctf
         else if direction = ''download''
         then run_command exec (join '' '' (base_cmd @ [remote, local_path])) ctf
         else return_str ''Direction must be 'upload' or 'download'.'')"

section \<open>Privilege escalation builders (\<^verbatim>\<open>privesc_tools.py\<close>)\<close>

definition list_suid_files :: "'c executor \<Rightarrow> 'c option \<Rightarrow> 'c outcome" where
  "list_suid_files exec ctf = run_command exec ''find / -perm -4000 -type f 2>/dev/null'' ctf"

definition sudo_permissions :: "'c executor \<Rightarrow> 'c option \<Rightarrow> 'c outcome" where
  "sudo_permissions exec ctf = run_command exec ''sudo -l'' ctf"

definition kernel_info :: "'c executor \<Rightarrow> 'c option \<Rightarrow> 'c outcome" where
  "kernel_info exec ctf = run_command exec ''uname -a'' ctf"

definition world_writable_dirs :: "'c executor \<Rightarrow> 'c option \<Rightarrow> 'c outcome" where
  "world_writable_dirs exec ctf =
     run_command exec ''find / -perm -0002 -type d 2>/dev/null'' ctf"

definition list_file_capabilities :: "'c executor \<Rightarrow> 'c option \<Rightarrow> 'c outcome" where
  "list_file_capabilities exec ctf = run_command exec ''getcap -r / 2>/dev/null'' ctf"

definition list_cron_jobs :: "'c executor \<Rightarrow> 'c option \<Rightarrow> 'c outcome" where
  "list_cron_jobs exec ctf =
     (let commands =
            [''echo '[System crontab]'' @ [sq],
             ''cat /etc/crontab 2>/dev/null || true'',
             ''echo '\<newline>[/etc/cron* directories]'' @ [sq],
             ''ls -l /etc/cron* 2>/dev/null || true'',
             ''echo '\<newline>[Current user crontab]'' @ [sq],
             ''crontab -l 2>/dev/null || echo 'No user crontab'' @ [sq]];
          cmd = join '' && '' commands
      in run_command exec cmd ctf)"

section \<open>What the executor receives: shell words\<close>

text \<open>
  Modelled from the spec: the executor (\<^verbatim>\<open>run_command\<close>, of \<^verbatim>\<open>cai.tools.common\<close>, which is
  not among the sources) runs the string it is given as a shell command, so the tokens it
  receives are the words into which a POSIX shell splits that string. The model covers
  word splitting at blanks and quote removal for the three quoting mechanisms (single
  quotes, double quotes, backslash). Outside quotes only the characters that never need
  quoting to stay part of a word are accepted (those \<^verbatim>\<open>shlex.quote\<close> leaves alone); any
  other unquoted character, and \<^verbatim>\<open>$\<close> or a backquote inside double quotes, starts an expansion, an
  operator or a comment, which the model does not follow: the result is then
  \<open>Outside_Model\<close>. A quote that is never closed is \<open>Unterminated_Quote\<close>.
\<close>

datatype shell_mode = Plain | Single | Double | Esc | Double_Esc | Not_Modelled

text \<open>
  The state of the scan: the quoting mode, the word under construction (\<open>None\<close> between
  words; an empty quoted string is a word) and the words completed so far.
\<close>

type_synonym shell_state = "shell_mode \<times> string option \<times> string list"

definition word_of :: "string option \<Rightarrow> string" where
  "word_of cur = (case cur of None \<Rightarrow> [] | Some w \<Rightarrow> w)"

definition add_char :: "char \<Rightarrow> string option \<Rightarrow> string option" where
  "add_char c cur = Some (word_of cur @ [c])"

definition flush :: "string option \<Rightarrow> string list \<Rightarrow> string list" where
  "flush cur acc = (case cur of None \<Rightarrow> acc | Some w \<Rightarrow> acc @ [w])"

definition newline :: char where
  "newline = CHR 0x0A"

definition blank :: "char \<Rightarrow> bool" where
  "blank c \<longleftrightarrow> c = CHR '' '' \<or> c = CHR 0x09"

fun shell_step :: "shell_state \<Rightarrow> char \<Rightarrow> shell_state" where
  "shell_step (Plain, cur, acc) c =
     (if blank c then (Plain, None, flush cur acc)
      else if c = sq then (Single, Some (word_of cur), acc)
      else if c = dq then (Double, Some (word_of cur), acc)
      else if c = backslash then (Esc, cur, acc)
      else if shlex_safe c then (Plain, add_char c cur, acc)
      else (Not_Modelled, cur, acc))"
| "shell_step (Single, cur, acc) c =
     (if c = sq then (Plain, cur, acc) else (Single, add_char c cur, acc))"
| "shell_step (Double, cur, acc) c =
     (if c = dq then (Plain, cur, acc)
      else if c = backslash then (Double_Esc, cur, acc)
      else if c = CHR ''$'' \<or> c = CHR 0x60 then (Not_Modelled, cur, acc)
      else (Double, add_char c cur, acc))"
| "shell_step (Esc, cur, acc) c =
     (if c = newline then (Plain, cur, acc) else (Plain, add_char c cur, acc))"
| "shell_step (Double_Esc, cur, acc) c =
     (if c = CHR ''$'' \<or> c = CHR 0x60 \<or> c = dq \<or> c = backslash
      then (Double, add_char c cur, acc)
      else if c = newline then (Double, cur, acc)
      else (Double, add_char c (add_char backslash cur), acc))"
| "shell_step (Not_Modelled, cur, acc) c = (Not_Modelled, cur, acc)"

declare shell_step.simps [simp del]

datatype shell_error = Unterminated_Quote | Outside_Model

fun shell_finish :: "shell_state \<Rightarrow> shell_error + string list" where
  "shell_finish (Plain, cur, acc) = Inr (flush cur acc)"
| "shell_finish (Single, cur, acc) = Inl Unterminated_Quote"
| "shell_finish (Double, cur, acc) = Inl Unterminated_Quote"
| "shell_finish (Double_Esc, cur, acc) = Inl Unterminated_Quote"
| "shell_finish (Esc, cur, acc) = Inl Outside_Model"
| "shell_finish (Not_Modelled, cur, acc) = Inl Outside_Model"

text \<open>
  Modelled from the spec: the tokens the executor receives for a command string, or the
  reason why the model gives none.
\<close>

definition shell_words :: "string \<Rightarrow> shell_error + string list" where
  "shell_words cmd = shell_finish (foldl shell_step (Plain, None, []) cmd)"

section \<open>Notions the properties are stated with\<close>

text \<open>The optional \<^verbatim>\<open>-i identity_file\<close> pair of the ssh and scp builders.\<close>

definition identity_opts :: "string option \<Rightarrow> string list" where
  "identity_opts identity_file_arg =
     (if param [] identity_file_arg \<noteq> [] then [''-i'', param [] identity_file_arg] else [])"

text \<open>
  Percent escaping, as the spec words it: the escaped form of a password doubles every
  percent sign; a reader for which \<^verbatim>\<open>%%\<close> stands for a literal percent sign and a single
  \<^verbatim>\<open>%\<close> starts a substitution gets the text back with \<open>percent_unescape\<close>, which is
  \<open>None\<close> when a substitution is present.
\<close>

definition percent_escape :: "string \<Rightarrow> string" where
  "percent_escape p = replace_char CHR ''%'' ''%%'' p"

fun percent_unescape :: "string \<Rightarrow> string option" where
  "percent_unescape [] = Some []"
| "percent_unescape [c] = (if c = CHR ''%'' then None else Some [c])"
| "percent_unescape (c # d # cs) =
     (if c = CHR ''%''
      then (if d = CHR ''%'' then map_option ((#) CHR ''%'') (percent_unescape cs) else None)
      else map_option ((#) c) (percent_unescape (d # cs)))"

text \<open>
  The characters that stand for themselves between double quotes: all but the double
  quote, the backslash, the dollar sign and the backquote.
\<close>

definition double_quotable :: "char \<Rightarrow> bool" where
  "double_quotable c \<longleftrightarrow> c \<noteq> dq \<and> c \<noteq> backslash \<and> c \<noteq> CHR ''$'' \<and> c \<noteq> CHR 0x60"

section \<open>Lemmas\<close>

lemma char_upper_L: "char_upper c = CHR ''L'' \<longleftrightarrow> c = CHR ''l'' \<or> c = CHR ''L''"
  by (simp add: char_upper_def ascii_lowercase_def ascii_uppercase_def)

lemma char_upper_R: "char_upper c = CHR ''R'' \<longleftrightarrow> c = CHR ''r'' \<or> c = CHR ''R''"
  by (simp add: char_upper_def ascii_lowercase_def ascii_uppercase_def)

lemma str_upper_LR:
  "str_upper d \<in> {''L'', ''R''} \<longleftrightarrow> d \<in> {''l'', ''L'', ''r'', ''R''}"
  by (cases d; cases "tl d") (auto simp: str_upper_def char_upper_L char_upper_R)

lemma str_nat_numeral:
  "str_nat (numeral k) =
     (if (numeral k :: nat) < 10 then [digit_char (numeral k)]
      else str_nat (numeral k div 10) @ [digit_char (numeral k mod 10)])"
  by (rule str_nat.simps)

lemma str_nat_not_Nil: "str_nat n \<noteq> []"
  by (subst str_nat.simps) simp

text \<open>A number that is at least \<open>10 ^ k\<close> has more than \<open>k\<close> digits.\<close>

lemma str_nat_length_gt: "10 ^ k \<le> n \<Longrightarrow> k < length (str_nat n)"
proof (induction k arbitrary: n)
  case 0
  from str_nat_not_Nil [of n] show ?case by simp
next
  case (Suc k)
  then have ten: "10 * 10 ^ k \<le> n"
    by simp
  then have "10 ^ k \<le> n div 10"
    by (simp add: less_eq_div_iff_mult_less_eq mult.commute)
  moreover have "(1::nat) \<le> 10 ^ k"
    by simp
  with ten have "\<not> n < 10"
    by linarith
  ultimately show ?case
    using Suc.IH [of "n div 10"] by (subst str_nat.simps) simp
qed

lemma digit_count_power_ten: "k < digit_count (10 ^ k)"
proof -
  have "nat \<bar>10 ^ k :: int\<bar> = 10 ^ k"
    by (simp add: nat_power_eq)
  then show ?thesis
    by (simp only: digit_count_def) (rule str_nat_length_gt, rule order_refl)
qed

lemma str_int_power_ten:
  "int_max_str_digits \<le> k \<Longrightarrow> str_int (10 ^ k) = Inl ValueError"
  using digit_count_power_ten [of k] by (simp only: str_int_def) simp

lemma str_int_within_cap:
  "digit_count i \<le> 4300 \<Longrightarrow> str_int i = Inr (decimal i)"
  by (simp add: str_int_def int_max_str_digits_def)

lemma str_int_beyond_cap:
  "\<not> digit_count i \<le> 4300 \<Longrightarrow> str_int i = Inl ValueError"
  by (simp add: str_int_def int_max_str_digits_def)

lemmas int_eval = digit_count_def decimal_def str_nat_numeral digit_char_def

lemmas shell_chars = blank_def sq_def dq_def backslash_def newline_def

lemma replace_char_Nil: "replace_char old new [] = []"
  by (simp add: replace_char_def)

lemma replace_char_Cons:
  "replace_char old new (c # s) = (if c = old then new else [c]) @ replace_char old new s"
  by (simp add: replace_char_def)

lemma shlex_unsafe_specials:
  "\<not> shlex_safe CHR '' ''" "\<not> shlex_safe CHR 0x09" "\<not> shlex_safe sq" "\<not> shlex_safe dq"
  "\<not> shlex_safe backslash"
  by (simp_all add: shlex_safe_def ascii_lowercase_def ascii_uppercase_def shell_chars)

lemma shell_step_safe:
  assumes "shlex_safe c"
  shows "shell_step (Plain, cur, acc) c = (Plain, Some (word_of cur @ [c]), acc)"
proof -
  from assms shlex_unsafe_specials have "\<not> blank c" "c \<noteq> sq" "c \<noteq> dq" "c \<noteq> backslash"
    by (auto simp: blank_def)
  with assms show ?thesis
    by (simp add: shell_step.simps add_char_def)
qed

lemma scan_safe:
  "list_all shlex_safe s \<Longrightarrow> s \<noteq> [] \<Longrightarrow>
     foldl shell_step (Plain, cur, acc) s = (Plain, Some (word_of cur @ s), acc)"
proof (induction s arbitrary: cur)
  case Nil
  then show ?case by simp
next
  case (Cons c s)
  then have c: "shlex_safe c" and s: "list_all shlex_safe s"
    by simp_all
  show ?case
  proof (cases "s = []")
    case True
    with c show ?thesis by (simp add: shell_step_safe)
  next
    case False
    with Cons.IH [OF s, of "Some (word_of cur @ [c])"] c show ?thesis
      by (simp add: shell_step_safe word_of_def)
  qed
qed

lemma scan_quoted_body:
  "foldl shell_step (Single, Some w, acc) (replace_char sq [sq, dq, sq, dq, sq] s)
     = (Single, Some (w @ s), acc)"
proof (induction s arbitrary: w)
  case Nil
  then show ?case by (simp add: replace_char_Nil)
next
  case (Cons c s)
  show ?case
  proof (cases "c = sq")
    case True
    have "foldl shell_step (Single, Some w, acc) [sq, dq, sq, dq, sq]
            = (Single, Some (w @ [sq]), acc)"
      by (simp add: shell_step.simps add_char_def word_of_def shell_chars)
    with True Cons.IH [of "w @ [sq]"] show ?thesis
      by (simp only: replace_char_Cons if_True foldl_append) simp
  next
    case False
    with Cons.IH [of "w @ [c]"] show ?thesis
      by (simp add: replace_char_Cons shell_step.simps add_char_def word_of_def)
  qed
qed

lemma shlex_quote_one_word:
  "foldl shell_step (Plain, None, acc) (shlex_quote s) = (Plain, Some s, acc)"
proof (cases "s = []")
  case True
  then show ?thesis
    by (simp add: shlex_quote_def shell_step.simps word_of_def shell_chars)
next
  case False
  show ?thesis
  proof (cases "list_all shlex_safe s")
    case True
    with False scan_safe [of s None acc] show ?thesis
      by (simp add: shlex_quote_def word_of_def)
  next
    case unsafe: False
    have "foldl shell_step (Plain, None, acc) ([sq] @ replace_char sq [sq, dq, sq, dq, sq] s @ [sq])
            = shell_step (foldl shell_step (Single, Some [], acc)
                (replace_char sq [sq, dq, sq, dq, sq] s)) sq"
      by (simp add: shell_step.simps word_of_def shell_chars)
    also have "\<dots> = (Plain, Some s, acc)"
      by (simp add: scan_quoted_body shell_step.simps)
    finally show ?thesis
      using False unsafe by (simp add: shlex_quote_def)
  qed
qed

lemma percent_unescape_escape: "percent_unescape (percent_escape p) = Some p"
proof (induction p)
  case Nil
  then show ?case by (simp add: percent_escape_def replace_char_Nil)
next
  case (Cons c p)
  show ?case
  proof (cases "c = CHR ''%''")
    case True
    with Cons show ?thesis
      by (simp add: percent_escape_def replace_char_Cons)
  next
    case False
    with Cons show ?thesis
      by (cases "percent_escape p") (simp_all add: percent_escape_def replace_char_Cons)
  qed
qed

lemma shell_words_append_quoted:
  assumes "foldl shell_step (Plain, None, []) pre = (Plain, None, acc)"
  shows "shell_words (pre @ shlex_quote s) = Inr (acc @ [s])"
  using assms by (simp add: shell_words_def shlex_quote_one_word flush_def)

lemmas shell_eval = shell_words_def shell_step.simps blank_def sq_def dq_def backslash_def shlex_safe_def
  ascii_lowercase_def ascii_uppercase_def add_char_def word_of_def flush_def newline_def

text \<open>
  A directory quoted by \<^verbatim>\<open>shlex.quote\<close> is one shell word, whatever it contains, and so
  is a command between the double quotes of \<^verbatim>\<open>ssh_exec\<close> as long as none of its characters
  is special there.
\<close>

lemma scan_plain_word_blank:
  assumes "list_all shlex_safe w" "w \<noteq> []"
  shows "foldl shell_step (Plain, None, acc) (w @ '' '') = (Plain, None, acc @ [w])"
  using assms
  by (simp add: scan_safe shell_step.simps blank_def flush_def word_of_def)

lemma compress_and_encrypt_words:
  assumes "list_all shlex_safe archive_name" "archive_name \<noteq> []"
  shows "compress_and_encrypt exec directory (Some archive_name) None ctf
           = run_command exec (''zip -r '' @ archive_name @ '' '' @ shlex_quote directory) ctf"
    and "shell_words (''zip -r '' @ archive_name @ '' '' @ shlex_quote directory)
           = Inr [''zip'', ''-r'', archive_name, directory]"
proof -
  show "compress_and_encrypt exec directory (Some archive_name) None ctf
           = run_command exec (''zip -r '' @ archive_name @ '' '' @ shlex_quote directory) ctf"
    by (simp add: compress_and_encrypt_def param_def Let_def)
  have "foldl shell_step (Plain, None, []) ''zip -r '' = (Plain, None, [''zip'', ''-r''])"
    by (simp add: shell_eval)
  then have "foldl shell_step (Plain, None, []) (''zip -r '' @ (archive_name @ '' ''))
               = (Plain, None, [''zip'', ''-r'', archive_name])"
    using scan_plain_word_blank [OF assms, of "[''zip'', ''-r'']"]
    by (simp only: foldl_append) simp
  then have "shell_words ((''zip -r '' @ (archive_name @ '' '')) @ shlex_quote directory)
               = Inr ([''zip'', ''-r'', archive_name] @ [directory])"
    by (rule shell_words_append_quoted)
  then show "shell_words (''zip -r '' @ archive_name @ '' '' @ shlex_quote directory)
           = Inr [''zip'', ''-r'', archive_name, directory]"
    by simp
qed

lemma scan_double_body:
  "list_all double_quotable s \<Longrightarrow>
     foldl shell_step (Double, Some w, acc) s = (Double, Some (w @ s), acc)"
proof (induction s arbitrary: w)
  case Nil
  then show ?case by simp
next
  case (Cons c s)
  then have "shell_step (Double, Some w, acc) c = (Double, Some (w @ [c]), acc)"
    by (simp add: double_quotable_def shell_step.simps add_char_def word_of_def)
  with Cons show ?case by simp
qed

lemma ssh_exec_words:
  assumes "list_all shlex_safe user" "list_all shlex_safe host"
    and "list_all double_quotable command"
  shows "ssh_exec exec user host command None None ctf
           = run_command exec
               (''ssh -p 22 '' @ (user @ ''@'' @ host) @ '' '' @ [dq] @ command @ [dq]) ctf"
    and "shell_words (''ssh -p 22 '' @ (user @ ''@'' @ host) @ '' '' @ [dq] @ command @ [dq])
           = Inr [''ssh'', ''-p'', ''22'', user @ ''@'' @ host, command]"
proof -
  let ?target = "user @ ''@'' @ host"
  let ?acc = "[''ssh'', ''-p'', ''22'', ?target]"
  show "ssh_exec exec user host command None None ctf
           = run_command exec (''ssh -p 22 '' @ ?target @ '' '' @ [dq] @ command @ [dq]) ctf"
    by (simp add: ssh_exec_def param_def Let_def)
  have "shlex_safe CHR ''@''"
    by (simp add: shlex_safe_def)
  with assms(1,2) have target: "list_all shlex_safe ?target" "?target \<noteq> []"
    by simp_all
  have "foldl shell_step (Plain, None, []) ''ssh -p 22 '' = (Plain, None, [''ssh'', ''-p'', ''22''])"
    by (simp add: shell_eval)
  then have "foldl shell_step (Plain, None, []) (''ssh -p 22 '' @ (?target @ '' ''))
               = (Plain, None, ?acc)"
    using scan_plain_word_blank [OF target, of "[''ssh'', ''-p'', ''22'']"]
    by (simp only: foldl_append) simp
  then have "foldl shell_step (Plain, None, [])
               ((''ssh -p 22 '' @ (?target @ '' '')) @ [dq] @ command @ [dq])
               = (Plain, Some command, ?acc)"
    using scan_double_body [OF assms(3), of "[]" ?acc]
    by (simp only: foldl_append) (simp add: shell_step.simps shell_chars word_of_def)
  then show "shell_words (''ssh -p 22 '' @ ?target @ '' '' @ [dq] @ command @ [dq])
           = Inr [''ssh'', ''-p'', ''22'', ?target, command]"
    by (simp add: shell_words_def flush_def)
qed

section \<open>Properties\<close>

text \<open>
  C4. \<^verbatim>\<open>compress_directory("data", "out.tar.gz")\<close> invokes the executor once, with the
  command \<^verbatim>\<open>tar czf out.tar.gz -C data .\<close> and the caller's context, and returns what the
  executor returns.
\<close>

theorem compress_directory_scenario:
  "compress_directory exec ''data'' (Some ''out.tar.gz'') ctf
     = (exec ''tar czf out.tar.gz -C data .'' ctf, [(''tar czf out.tar.gz -C data .'', ctf)])"
  by (simp add: compress_directory_def param_def run_command_def Let_def)

text \<open>
  C1. A direction outside the accepted set makes \<^verbatim>\<open>ssh_tunnel\<close> and \<^verbatim>\<open>rsync_transfer\<close>
  return their error string: the outcome is a returned value, not an exception, and the
  list of executor invocations is empty, whatever the executor and the other arguments.
\<close>

theorem invalid_direction_rejected:
  "(str_upper d \<notin> {''L'', ''R''} \<longrightarrow>
      ssh_tunnel exec local_port remote_host remote_port user host (Some d) identity_file ctf
        = (Inr ''Direction must be 'L' or 'R'.'', []))
   \<and> (str_lower d \<notin> {''upload'', ''download''} \<longrightarrow>
      rsync_transfer exec local_path remote_path user host port identity_file (Some d) ctf
        = (Inr ''Direction must be 'upload' or 'download'.'', []))"
  by (simp add: ssh_tunnel_def rsync_transfer_def param_def return_str_def Let_def)

theorem invalid_direction_rejected_witness:
  "str_upper ''sideways'' \<notin> {''L'', ''R''}
   \<and> ssh_tunnel failing_executor 8080 ''internal.host'' 80 ''alice'' ''gateway''
         (Some ''sideways'') None (None :: unit option)
       = (Inr ''Direction must be 'L' or 'R'.'', [])
   \<and> str_lower ''sideways'' \<notin> {''upload'', ''download''}
   \<and> rsync_transfer failing_executor ''/tmp/a'' ''/remote/b'' ''bob'' ''10.0.0.5'' None None
         (Some ''sideways'') (None :: unit option)
       = (Inr ''Direction must be 'upload' or 'download'.'', [])"
proof -
  have u: "str_upper ''sideways'' \<notin> {''L'', ''R''}"
    by (simp add: str_upper_def)
  have l: "str_lower ''sideways'' \<notin> {''upload'', ''download''}"
    by (simp add: str_lower_def char_lower_def ascii_uppercase_def ascii_lowercase_def)
  from u l invalid_direction_rejected [where d = "''sideways''" and exec = failing_executor
      and local_port = 8080 and remote_host = "''internal.host''" and remote_port = 80
      and user = "''alice''" and host = "''gateway''" and identity_file = None
      and ctf = "None :: unit option"]
    invalid_direction_rejected [where d = "''sideways''" and exec = failing_executor
      and local_path = "''/tmp/a''" and remote_path = "''/remote/b''" and user = "''bob''"
      and host = "''10.0.0.5''" and port = None and identity_file = None
      and ctf = "None :: unit option"]
  show ?thesis by blast
qed

text \<open>
  C5. When the upper-cased direction is \<^verbatim>\<open>L\<close> or \<^verbatim>\<open>R\<close>, \<^verbatim>\<open>ssh_tunnel\<close> delegates the
  command \<^verbatim>\<open>ssh -f -N [-i key] -D lport:rhost:rport user@host\<close> where \<^verbatim>\<open>D\<close> is the
  upper-cased direction (a port too long to be rendered raises \<^verbatim>\<open>ValueError\<close> instead);
  the call of scenario 2, with direction \<^verbatim>\<open>r\<close>, delegates
  \<^verbatim>\<open>ssh -f -N -R 8080:internal.host:80 alice@gateway\<close>.
\<close>

theorem ssh_tunnel_direction:
  "(str_upper d \<in> {''L'', ''R''} \<longrightarrow>
      ssh_tunnel exec local_port remote_host remote_port user host (Some d) identity_file ctf
        = (if digit_count local_port \<le> 4300 \<and> digit_count remote_port \<le> 4300
           then run_command exec
                  (join '' '' ([''ssh'', ''-f'', ''-N''] @ identity_opts identity_file
                     @ [''-'' @ str_upper d,
                        decimal local_port @ '':'' @ remote_host @ '':''
                          @ decimal remote_port,
                        user @ ''@'' @ host])) ctf
           else (Inl ValueError, [])))
   \<and> ssh_tunnel exec 8080 ''internal.host'' 80 ''alice'' ''gateway'' (Some ''r'') None ctf
        = (exec ''ssh -f -N -R 8080:internal.host:80 alice@gateway'' ctf,
           [(''ssh -f -N -R 8080:internal.host:80 alice@gateway'', ctf)])"
proof (rule conjI)
  show "str_upper d \<in> {''L'', ''R''} \<longrightarrow>
      ssh_tunnel exec local_port remote_host remote_port user host (Some d) identity_file ctf
        = (if digit_count local_port \<le> 4300 \<and> digit_count remote_port \<le> 4300
           then run_command exec
                  (join '' '' ([''ssh'', ''-f'', ''-N''] @ identity_opts identity_file
                     @ [''-'' @ str_upper d,
                        decimal local_port @ '':'' @ remote_host @ '':''
                          @ decimal remote_port,
                        user @ ''@'' @ host])) ctf
           else (Inl ValueError, []))"
    by (simp add: ssh_tunnel_def identity_opts_def param_def Let_def raise_exn_def
        str_int_def int_max_str_digits_def)
next
  have "str_int 8080 = Inr ''8080''" "str_int 80 = Inr ''80''"
    by (simp_all add: str_int_def int_max_str_digits_def int_eval)
  then show "ssh_tunnel exec 8080 ''internal.host'' 80 ''alice'' ''gateway'' (Some ''r'') None ctf
        = (exec ''ssh -f -N -R 8080:internal.host:80 alice@gateway'' ctf,
           [(''ssh -f -N -R 8080:internal.host:80 alice@gateway'', ctf)])"
    by (simp add: ssh_tunnel_def param_def Let_def str_upper_def char_upper_def
        ascii_lowercase_def ascii_uppercase_def run_command_def)
qed

theorem ssh_tunnel_direction_witness:
  "str_upper ''r'' \<in> {''L'', ''R''}
   \<and> ssh_tunnel failing_executor 8080 ''internal.host'' 80 ''alice'' ''gateway'' (Some ''r'')
         (Some ''id_rsa'') (None :: unit option)
       = run_command failing_executor
           ''ssh -f -N -i id_rsa -R 8080:internal.host:80 alice@gateway'' None"
proof -
  have u: "str_upper ''r'' = ''R''"
    by (simp add: str_upper_def char_upper_def ascii_lowercase_def ascii_uppercase_def)
  have n: "digit_count 8080 \<le> 4300" "digit_count 80 \<le> 4300"
    "decimal 8080 = ''8080''" "decimal 80 = ''80''"
    by (simp_all add: int_eval)
  from ssh_tunnel_direction [where d = "''r''" and exec = failing_executor
        and local_port = 8080 and remote_host = "''internal.host''" and remote_port = 80
        and user = "''alice''" and host = "''gateway''" and identity_file = "Some ''id_rsa''"
        and ctf = "None :: unit option"] u n
  show ?thesis
    by (simp add: identity_opts_def param_def)
qed

text \<open>
  C6. With a direction that lower-cases to \<^verbatim>\<open>download\<close>, \<^verbatim>\<open>rsync_transfer\<close> delegates an
  rsync command whose source is \<^verbatim>\<open>user@host:remote_path\<close> and whose destination is
  \<^verbatim>\<open>local_path\<close>; with \<^verbatim>\<open>upload\<close> the two are swapped. The call of scenario 3 delegates
  a transfer from \<^verbatim>\<open>bob@10.0.0.5:/remote/b\<close> into \<^verbatim>\<open>/tmp/a\<close>.
\<close>

theorem rsync_transfer_direction:
  \<open>(str_lower d = ''download'' \<longrightarrow>
      rsync_transfer exec local_path remote_path user host port identity_file (Some d) ctf
        = run_command exec
            (join '' '' [''rsync'', ''-avz'', ''-e'',
               ''"'' @ join '' '' ([''ssh'', ''-p'', param ''22'' port]
                                    @ identity_opts identity_file) @ ''"'',
               user @ ''@'' @ host @ '':'' @ remote_path, local_path]) ctf)
   \<and> (str_lower d = ''upload'' \<longrightarrow>
      rsync_transfer exec local_path remote_path user host port identity_file (Some d) ctf
        = run_command exec
            (join '' '' [''rsync'', ''-avz'', ''-e'',
               ''"'' @ join '' '' ([''ssh'', ''-p'', param ''22'' port]
                                    @ identity_opts identity_file) @ ''"'',
               local_path, user @ ''@'' @ host @ '':'' @ remote_path]) ctf)
   \<and> rsync_transfer exec ''/tmp/a'' ''/remote/b'' ''bob'' ''10.0.0.5'' None None
        (Some ''download'') ctf
        = (exec ''rsync -avz -e "ssh -p 22" bob@10.0.0.5:/remote/b /tmp/a'' ctf,
           [(''rsync -avz -e "ssh -p 22" bob@10.0.0.5:/remote/b /tmp/a'', ctf)])\<close>
proof (intro conjI)
  show \<open>str_lower d = ''download'' \<longrightarrow>
      rsync_transfer exec local_path remote_path user host port identity_file (Some d) ctf
        = run_command exec
            (join '' '' [''rsync'', ''-avz'', ''-e'',
               ''"'' @ join '' '' ([''ssh'', ''-p'', param ''22'' port]
                                    @ identity_opts identity_file) @ ''"'',
               user @ ''@'' @ host @ '':'' @ remote_path, local_path]) ctf\<close>
    by (simp add: rsync_transfer_def identity_opts_def param_def Let_def dq_def)
next
  show \<open>str_lower d = ''upload'' \<longrightarrow>
      rsync_transfer exec local_path remote_path user host port identity_file (Some d) ctf
        = run_command exec
            (join '' '' [''rsync'', ''-avz'', ''-e'',
               ''"'' @ join '' '' ([''ssh'', ''-p'', param ''22'' port]
                                    @ identity_opts identity_file) @ ''"'',
               local_path, user @ ''@'' @ host @ '':'' @ remote_path]) ctf\<close>
    by (simp add: rsync_transfer_def identity_opts_def param_def Let_def dq_def)
next
  show \<open>rsync_transfer exec ''/tmp/a'' ''/remote/b'' ''bob'' ''10.0.0.5'' None None
        (Some ''download'') ctf
        = (exec ''rsync -avz -e "ssh -p 22" bob@10.0.0.5:/remote/b /tmp/a'' ctf,
           [(''rsync -avz -e "ssh -p 22" bob@10.0.0.5:/remote/b /tmp/a'', ctf)])\<close>
    by (simp add: rsync_transfer_def param_def Let_def dq_def str_lower_def char_lower_def
        ascii_lowercase_def ascii_uppercase_def run_command_def)
qed

theorem rsync_transfer_direction_witness:
  \<open>str_lower ''DownLoad'' = ''download''
   \<and> rsync_transfer failing_executor ''/tmp/a'' ''/remote/b'' ''bob'' ''10.0.0.5''
        (Some ''2222'') (Some ''key'') (Some ''DownLoad'') (None :: unit option)
      = run_command failing_executor
          ''rsync -avz -e "ssh -p 2222 -i key" bob@10.0.0.5:/remote/b /tmp/a'' None
   \<and> str_lower ''UPLOAD'' = ''upload''
   \<and> rsync_transfer failing_executor ''/tmp/a'' ''/remote/b'' ''bob'' ''10.0.0.5''
        (Some ''2222'') (Some ''key'') (Some ''UPLOAD'') (None :: unit option)
      = run_command failing_executor
          ''rsync -avz -e "ssh -p 2222 -i key" /tmp/a bob@10.0.0.5:/remote/b'' None\<close>
proof -
  have d: "str_lower ''DownLoad'' = ''download''"
    by (simp add: str_lower_def char_lower_def ascii_lowercase_def ascii_uppercase_def)
  have u: "str_lower ''UPLOAD'' = ''upload''"
    by (simp add: str_lower_def char_lower_def ascii_lowercase_def ascii_uppercase_def)
  note inst = rsync_transfer_direction [where exec = failing_executor
      and local_path = "''/tmp/a''" and remote_path = "''/remote/b''" and user = "''bob''"
      and host = "''10.0.0.5''" and port = "Some ''2222''" and identity_file = "Some ''key''"
      and ctf = "None :: unit option"]
  from d inst [where d = "''DownLoad''"] u inst [where d = "''UPLOAD''"]
  show ?thesis
    by (simp add: identity_opts_def param_def)
qed

text \<open>
  C7. A call of \<^verbatim>\<open>scp_upload\<close>, \<^verbatim>\<open>scp_download\<close>, \<^verbatim>\<open>ssh_exec\<close> or \<^verbatim>\<open>rsync_transfer\<close> that
  omits the port builds its command from a list of parts in which \<^verbatim>\<open>22\<close> directly follows
  \<^verbatim>\<open>scp -P\<close>, respectively \<^verbatim>\<open>ssh -p\<close>. For \<^verbatim>\<open>rsync_transfer\<close>, whenever the direction
  (given or defaulted) is accepted, the command is built and delegated, with
  \<^verbatim>\<open>ssh -p 22\<close> at the head of the quoted transport command.
\<close>

theorem default_port_22:
  \<open>(\<exists>rest. scp_upload exec local_file remote_path user host None identity_file ctf
        = run_command exec (join '' '' ([''scp'', ''-P'', ''22''] @ rest)) ctf)
   \<and> (\<exists>rest. scp_download exec remote_file local_path user host None identity_file ctf
        = run_command exec (join '' '' ([''scp'', ''-P'', ''22''] @ rest)) ctf)
   \<and> (\<exists>rest. ssh_exec exec user host command None identity_file ctf
        = run_command exec (join '' '' ([''ssh'', ''-p'', ''22''] @ rest)) ctf)
   \<and> (str_lower (param ''upload'' direction) = ''upload'' \<longrightarrow>
        rsync_transfer exec local_path remote_path user host None identity_file direction ctf
          = run_command exec
              (join '' '' [''rsync'', ''-avz'', ''-e'',
                 ''"'' @ join '' '' ([''ssh'', ''-p'', ''22''] @ identity_opts identity_file)
                   @ ''"'',
                 local_path, user @ ''@'' @ host @ '':'' @ remote_path]) ctf)
   \<and> (str_lower (param ''upload'' direction) = ''download'' \<longrightarrow>
        rsync_transfer exec local_path remote_path user host None identity_file direction ctf
          = run_command exec
              (join '' '' [''rsync'', ''-avz'', ''-e'',
                 ''"'' @ join '' '' ([''ssh'', ''-p'', ''22''] @ identity_opts identity_file)
                   @ ''"'',
                 user @ ''@'' @ host @ '':'' @ remote_path, local_path]) ctf)\<close>
proof (intro conjI)
  have "scp_upload exec local_file remote_path user host None identity_file ctf
        = run_command exec (join '' '' ([''scp'', ''-P'', ''22'']
            @ (identity_opts identity_file
               @ [local_file, user @ ''@'' @ host @ '':'' @ remote_path]))) ctf"
    by (simp add: scp_upload_def Let_def param_def identity_opts_def)
  then show "\<exists>rest. scp_upload exec local_file remote_path user host None identity_file ctf
        = run_command exec (join '' '' ([''scp'', ''-P'', ''22''] @ rest)) ctf"
    by (rule exI)
next
  have "scp_download exec remote_file local_path user host None identity_file ctf
        = run_command exec (join '' '' ([''scp'', ''-P'', ''22'']
            @ (identity_opts identity_file
               @ [user @ ''@'' @ host @ '':'' @ remote_file, local_path]))) ctf"
    by (simp add: scp_download_def Let_def param_def identity_opts_def)
  then show "\<exists>rest. scp_download exec remote_file local_path user host None identity_file ctf
        = run_command exec (join '' '' ([''scp'', ''-P'', ''22''] @ rest)) ctf"
    by (rule exI)
next
  have "ssh_exec exec user host command None identity_file ctf
        = run_command exec (join '' '' ([''ssh'', ''-p'', ''22'']
            @ (identity_opts identity_file
               @ [user @ ''@'' @ host, [dq] @ command @ [dq]]))) ctf"
    by (simp add: ssh_exec_def Let_def param_def identity_opts_def)
  then show "\<exists>rest. ssh_exec exec user host command None identity_file ctf
        = run_command exec (join '' '' ([''ssh'', ''-p'', ''22''] @ rest)) ctf"
    by (rule exI)
next
  show \<open>str_lower (param ''upload'' direction) = ''upload'' \<longrightarrow>
        rsync_transfer exec local_path remote_path user host None identity_file direction ctf
          = run_command exec
              (join '' '' [''rsync'', ''-avz'', ''-e'',
                 ''"'' @ join '' '' ([''ssh'', ''-p'', ''22''] @ identity_opts identity_file)
                   @ ''"'',
                 local_path, user @ ''@'' @ host @ '':'' @ remote_path]) ctf\<close>
    by (simp add: rsync_transfer_def identity_opts_def param_def Let_def dq_def)
next
  show \<open>str_lower (param ''upload'' direction) = ''download'' \<longrightarrow>
        rsync_transfer exec local_path remote_path user host None identity_file direction ctf
          = run_command exec
              (join '' '' [''rsync'', ''-avz'', ''-e'',
                 ''"'' @ join '' '' ([''ssh'', ''-p'', ''22''] @ identity_opts identity_file)
                   @ ''"'',
                 user @ ''@'' @ host @ '':'' @ remote_path, local_path]) ctf\<close>
    by (simp add: rsync_transfer_def identity_opts_def param_def Let_def dq_def)
qed

theorem default_port_22_witness:
  \<open>str_lower (param ''upload'' None) = ''upload''
   \<and> rsync_transfer failing_executor ''/tmp/a'' ''/remote/b'' ''bob'' ''10.0.0.5'' None None
        None (None :: unit option)
      = run_command failing_executor
          ''rsync -avz -e "ssh -p 22" /tmp/a bob@10.0.0.5:/remote/b'' None
   \<and> str_lower (param ''upload'' (Some ''Download'')) = ''download''
   \<and> rsync_transfer failing_executor ''/tmp/a'' ''/remote/b'' ''bob'' ''10.0.0.5'' None
        (Some ''key'') (Some ''Download'') (None :: unit option)
      = run_command failing_executor
          ''rsync -avz -e "ssh -p 22 -i key" bob@10.0.0.5:/remote/b /tmp/a'' None\<close>
proof -
  have u: "str_lower (param ''upload'' None) = ''upload''"
    by (simp add: param_def str_lower_def char_lower_def ascii_lowercase_def
        ascii_uppercase_def)
  have d: "str_lower (param ''upload'' (Some ''Download'')) = ''download''"
    by (simp add: param_def str_lower_def char_lower_def ascii_lowercase_def
        ascii_uppercase_def)
  note inst = default_port_22 [where exec = failing_executor
      and local_path = "''/tmp/a''" and remote_path = "''/remote/b''" and user = "''bob''"
      and host = "''10.0.0.5''" and ctf = "None :: unit option"]
  from u inst [where direction = None and identity_file = None]
    d inst [where direction = "Some ''Download''" and identity_file = "Some ''key''"]
  show ?thesis
    by (simp add: identity_opts_def param_def)
qed

text \<open>
  C9. Without a user (omitted or empty), \<^verbatim>\<open>smb_list_shares\<close> delegates
  \<^verbatim>\<open>smbclient -L //host -N -g\<close>: the anonymous flag is there and the command depends on
  the host alone, whatever the password and the domain are.
\<close>

theorem anonymous_login_without_user:
  "smb_list_shares exec host None password domain ctf
     = run_command exec (''smbclient -L //'' @ host @ '' -N -g'') ctf
   \<and> smb_list_shares exec host (Some []) password domain ctf
     = run_command exec (''smbclient -L //'' @ host @ '' -N -g'') ctf"
  by (simp add: smb_list_shares_def param_def Let_def)


text \<open>
  C10. As stated, for any integers, the claim fails: rendering an integer of more than
  4300 digits raises \<^verbatim>\<open>ValueError\<close> before the executor is reached.
\<close>

theorem ping_host_huge_count_raises:
  "ping_host failing_executor ''h'' (Some (10 ^ 4300)) (None :: unit option)
     = (Inl ValueError, [])"
proof -
  have "int_max_str_digits \<le> 4300"
    by (simp add: int_max_str_digits_def)
  then have "str_int (10 ^ 4300) = Inl ValueError"
    by (rule str_int_power_ten)
  then show ?thesis
    by (simp only: ping_host_def param_def Let_def option.case sum.case raise_exn_def)
qed

text \<open>
  C10, amended. For all strings and contexts, and all integers of at most 4300 digits,
  every builder ends in exactly one executor invocation, with the command its template
  gives for the arguments and with the caller's context, and returns the executor's
  result; the two builders with a direction return their error string, without an
  invocation, when they reject it. An integer of more digits makes \<^verbatim>\<open>split_file\<close>,
  \<^verbatim>\<open>ping_host\<close> and, after an accepted direction, \<^verbatim>\<open>ssh_tunnel\<close> raise \<^verbatim>\<open>ValueError\<close>
  without an invocation.
\<close>

theorem builders_total:
  "run_command exec cmd ctf = (exec cmd ctf, [(cmd, ctf)])
   \<and> compress_directory exec directory tar_name ctf
       = run_command exec
           (''tar czf '' @ param ''archive.tar.gz'' tar_name @ '' -C '' @ directory @ '' .'')
           ctf
   \<and> scp_upload exec local_file remote_path user host port identity_file ctf
       = run_command exec
           (join '' '' ([''scp'', ''-P'', param ''22'' port] @ identity_opts identity_file
              @ [local_file, user @ ''@'' @ host @ '':'' @ remote_path])) ctf
   \<and> scp_download exec remote_file local_path user host port identity_file ctf
       = run_command exec
           (join '' '' ([''scp'', ''-P'', param ''22'' port] @ identity_opts identity_file
              @ [user @ ''@'' @ host @ '':'' @ remote_file, local_path])) ctf
   \<and> base64_encode_file exec file_path ctf = run_command exec (''base64 '' @ file_path) ctf
   \<and> upload_http exec url file_path field_name ctf
       = run_command exec
           (''curl -X POST -F '' @ [sq] @ param ''file'' field_name @ ''=@'' @ file_path
              @ [sq] @ '' '' @ url) ctf
   \<and> split_file exec file_path chunk_size_mb ctf
       = (if digit_count (param 10 chunk_size_mb) \<le> 4300
          then run_command exec
                 (''split -b '' @ decimal (param 10 chunk_size_mb) @ ''M '' @ file_path
                    @ '' '' @ basename file_path @ ''.part'') ctf
          else (Inl ValueError, []))
   \<and> compress_and_encrypt exec directory zip_name password ctf
       = run_command exec
           (if param [] password \<noteq> []
            then ''zip -r -P '' @ shlex_quote (param [] password) @ '' ''
                   @ param ''archive.zip'' zip_name @ '' '' @ shlex_quote directory
            else ''zip -r '' @ param ''archive.zip'' zip_name @ '' '' @ shlex_quote directory)
           ctf
   \<and> ssh_exec exec user host command port identity_file ctf
       = run_command exec
           (join '' '' ([''ssh'', ''-p'', param ''22'' port] @ identity_opts identity_file
              @ [user @ ''@'' @ host, [dq] @ command @ [dq]])) ctf
   \<and> ping_host exec host count ctf
       = (if digit_count (param 4 count) \<le> 4300
          then run_command exec (''ping -c '' @ decimal (param 4 count) @ '' '' @ host) ctf
          else (Inl ValueError, []))
   \<and> ssh_tunnel exec local_port remote_host remote_port user host tunnel_direction
         identity_file ctf
       = (if str_upper (param ''L'' tunnel_direction) \<notin> {''L'', ''R''}
          then (Inr ''Direction must be 'L' or 'R'.'', [])
          else if digit_count local_port \<le> 4300 \<and> digit_count remote_port \<le> 4300
          then run_command exec
                 (join '' '' ([''ssh'', ''-f'', ''-N''] @ identity_opts identity_file
                    @ [''-'' @ str_upper (param ''L'' tunnel_direction),
                       decimal local_port @ '':'' @ remote_host @ '':''
                         @ decimal remote_port,
                       user @ ''@'' @ host])) ctf
          else (Inl ValueError, []))
   \<and> smb_list_shares exec host smb_user password domain ctf
       = run_command exec
           (''smbclient -L //'' @ host @ '' ''
              @ (if param [] smb_user \<noteq> []
                 then ''-U '' @ (if param [] domain \<noteq> [] then param [] domain @ [backslash]
                                 else [])
                        @ param [] smb_user @ ''%'' @ percent_escape (param [] password)
                 else ''-N'')
              @ '' -g'') ctf
   \<and> rsync_transfer exec local_path remote_path user host port identity_file direction ctf
       = (if str_lower (param ''upload'' direction) = ''upload''
          then run_command exec
                 (join '' '' [''rsync'', ''-avz'', ''-e'',
                    [dq] @ join '' '' ([''ssh'', ''-p'', param ''22'' port]
                                        @ identity_opts identity_file) @ [dq],
                    local_path, user @ ''@'' @ host @ '':'' @ remote_path]) ctf
          else if str_lower (param ''upload'' direction) = ''download''
          then run_command exec
                 (join '' '' [''rsync'', ''-avz'', ''-e'',
                    [dq] @ join '' '' ([''ssh'', ''-p'', param ''22'' port]
                                        @ identity_opts identity_file) @ [dq],
                    user @ ''@'' @ host @ '':'' @ remote_path, local_path]) ctf
          else (Inr ''Direction must be 'upload' or 'download'.'', []))
   \<and> list_suid_files exec ctf
       = run_command exec ''find / -perm -4000 -type f 2>/dev/null'' ctf
   \<and> sudo_permissions exec ctf = run_command exec ''sudo -l'' ctf
   \<and> kernel_info exec ctf = run_command exec ''uname -a'' ctf
   \<and> world_writable_dirs exec ctf
       = run_command exec ''find / -perm -0002 -type d 2>/dev/null'' ctf
   \<and> list_file_capabilities exec ctf = run_command exec ''getcap -r / 2>/dev/null'' ctf
   \<and> list_cron_jobs exec ctf
       = run_command exec
           (''echo '[System crontab]' && cat /etc/crontab 2>/dev/null || true && ''
            @ ''echo '\<newline>[/etc/cron* directories]' && ls -l /etc/cron* 2>/dev/null || true && ''
            @ ''echo '\<newline>[Current user crontab]' && ''
            @ ''crontab -l 2>/dev/null || echo 'No user crontab'' @ [sq]) ctf"
proof (intro conjI)
  show "run_command exec cmd ctf = (exec cmd ctf, [(cmd, ctf)])"
    by (simp add: run_command_def)
  show "compress_directory exec directory tar_name ctf
       = run_command exec
           (''tar czf '' @ param ''archive.tar.gz'' tar_name @ '' -C '' @ directory @ '' .'')
           ctf"
    by (simp add: compress_directory_def Let_def)
  show "scp_upload exec local_file remote_path user host port identity_file ctf
       = run_command exec
           (join '' '' ([''scp'', ''-P'', param ''22'' port] @ identity_opts identity_file
              @ [local_file, user @ ''@'' @ host @ '':'' @ remote_path])) ctf"
    by (simp add: scp_upload_def identity_opts_def Let_def)
  show "scp_download exec remote_file local_path user host port identity_file ctf
       = run_command exec
           (join '' '' ([''scp'', ''-P'', param ''22'' port] @ identity_opts identity_file
              @ [user @ ''@'' @ host @ '':'' @ remote_file, local_path])) ctf"
    by (simp add: scp_download_def identity_opts_def Let_def)
  show "base64_encode_file exec file_path ctf = run_command exec (''base64 '' @ file_path) ctf"
    by (simp add: base64_encode_file_def)
  show "upload_http exec url file_path field_name ctf
       = run_command exec
           (''curl -X POST -F '' @ [sq] @ param ''file'' field_name @ ''=@'' @ file_path
              @ [sq] @ '' '' @ url) ctf"
    by (simp add: upload_http_def Let_def)
  show "split_file exec file_path chunk_size_mb ctf
       = (if digit_count (param 10 chunk_size_mb) \<le> 4300
          then run_command exec
                 (''split -b '' @ decimal (param 10 chunk_size_mb) @ ''M '' @ file_path
                    @ '' '' @ basename file_path @ ''.part'') ctf
          else (Inl ValueError, []))"
    by (simp add: split_file_def Let_def raise_exn_def str_int_within_cap str_int_beyond_cap)
  show "compress_and_encrypt exec directory zip_name password ctf
       = run_command exec
           (if param [] password \<noteq> []
            then ''zip -r -P '' @ shlex_quote (param [] password) @ '' ''
                   @ param ''archive.zip'' zip_name @ '' '' @ shlex_quote directory
            else ''zip -r '' @ param ''archive.zip'' zip_name @ '' '' @ shlex_quote directory)
           ctf"
    by (simp add: compress_and_encrypt_def Let_def)
  show "ssh_exec exec user host command port identity_file ctf
       = run_command exec
           (join '' '' ([''ssh'', ''-p'', param ''22'' port] @ identity_opts identity_file
              @ [user @ ''@'' @ host, [dq] @ command @ [dq]])) ctf"
    by (simp add: ssh_exec_def identity_opts_def Let_def)
  show "ping_host exec host count ctf
       = (if digit_count (param 4 count) \<le> 4300
          then run_command exec (''ping -c '' @ decimal (param 4 count) @ '' '' @ host) ctf
          else (Inl ValueError, []))"
    by (simp add: ping_host_def Let_def raise_exn_def str_int_within_cap str_int_beyond_cap)
  show "ssh_tunnel exec local_port remote_host remote_port user host tunnel_direction
         identity_file ctf
       = (if str_upper (param ''L'' tunnel_direction) \<notin> {''L'', ''R''}
          then (Inr ''Direction must be 'L' or 'R'.'', [])
          else if digit_count local_port \<le> 4300 \<and> digit_count remote_port \<le> 4300
          then run_command exec
                 (join '' '' ([''ssh'', ''-f'', ''-N''] @ identity_opts identity_file
                    @ [''-'' @ str_upper (param ''L'' tunnel_direction),
                       decimal local_port @ '':'' @ remote_host @ '':''
                         @ decimal remote_port,
                       user @ ''@'' @ host])) ctf
          else (Inl ValueError, []))"
    by (simp add: ssh_tunnel_def identity_opts_def Let_def return_str_def raise_exn_def
        str_int_def int_max_str_digits_def)
  show "smb_list_shares exec host smb_user password domain ctf
       = run_command exec
           (''smbclient -L //'' @ host @ '' ''
              @ (if param [] smb_user \<noteq> []
                 then ''-U '' @ (if param [] domain \<noteq> [] then param [] domain @ [backslash]
                                 else [])
                        @ param [] smb_user @ ''%'' @ percent_escape (param [] password)
                 else ''-N'')
              @ '' -g'') ctf"
    by (simp add: smb_list_shares_def Let_def percent_escape_def replace_char_Nil)
  show "rsync_transfer exec local_path remote_path user host port identity_file direction ctf
       = (if str_lower (param ''upload'' direction) = ''upload''
          then run_command exec
                 (join '' '' [''rsync'', ''-avz'', ''-e'',
                    [dq] @ join '' '' ([''ssh'', ''-p'', param ''22'' port]
                                        @ identity_opts identity_file) @ [dq],
                    local_path, user @ ''@'' @ host @ '':'' @ remote_path]) ctf
          else if str_lower (param ''upload'' direction) = ''download''
          then run_command exec
                 (join '' '' [''rsync'', ''-avz'', ''-e'',
                    [dq] @ join '' '' ([''ssh'', ''-p'', param ''22'' port]
                                        @ identity_opts identity_file) @ [dq],
                    user @ ''@'' @ host @ '':'' @ remote_path, local_path]) ctf
          else (Inr ''Direction must be 'upload' or 'download'.'', []))"
    by (simp add: rsync_transfer_def identity_opts_def Let_def return_str_def)
  show "list_suid_files exec ctf
       = run_command exec ''find / -perm -4000 -type f 2>/dev/null'' ctf"
    by (simp add: list_suid_files_def)
  show "sudo_permissions exec ctf = run_command exec ''sudo -l'' ctf"
    by (simp add: sudo_permissions_def)
  show "kernel_info exec ctf = run_command exec ''uname -a'' ctf"
    by (simp add: kernel_info_def)
  show "world_writable_dirs exec ctf
       = run_command exec ''find / -perm -0002 -type d 2>/dev/null'' ctf"
    by (simp add: world_writable_dirs_def)
  show "list_file_capabilities exec ctf = run_command exec ''getcap -r / 2>/dev/null'' ctf"
    by (simp add: list_file_capabilities_def)
  show "list_cron_jobs exec ctf
       = run_command exec
           (''echo '[System crontab]' && cat /etc/crontab 2>/dev/null || true && ''
            @ ''echo '\<newline>[/etc/cron* directories]' && ls -l /etc/cron* 2>/dev/null || true && ''
            @ ''echo '\<newline>[Current user crontab]' && ''
            @ ''crontab -l 2>/dev/null || echo 'No user crontab'' @ [sq]) ctf"
    by (simp add: list_cron_jobs_def Let_def sq_def)
qed

theorem builders_total_witness:
  "digit_count (param 4 None) \<le> 4300
   \<and> ping_host failing_executor ''10.0.0.5'' None (None :: unit option)
       = run_command failing_executor ''ping -c 4 10.0.0.5'' None
   \<and> digit_count (param 10 (Some 25)) \<le> 4300
   \<and> split_file failing_executor ''/tmp/data.bin'' (Some 25) (None :: unit option)
       = run_command failing_executor ''split -b 25M /tmp/data.bin data.bin.part'' None"
proof -
  have n: "digit_count (param 4 None) \<le> 4300" "digit_count (param 10 (Some 25)) \<le> 4300"
    "decimal (param 4 None) = ''4''" "decimal (param 10 (Some 25)) = ''25''"
    by (simp_all add: param_def int_eval)
  have b: "basename ''/tmp/data.bin'' = ''data.bin''"
    by (simp add: basename_def)
  from n b builders_total [where exec = failing_executor and host = "''10.0.0.5''"
      and count = None and file_path = "''/tmp/data.bin''" and chunk_size_mb = "Some 25"
      and ctf = "None :: unit option"]
  show ?thesis
    by simp
qed

text \<open>
  C2. A directory with a space is to reach the executor as one token. The call
  \<^verbatim>\<open>compress_directory("my dir", "out.tar.gz")\<close> delegates \<^verbatim>\<open>tar czf out.tar.gz -C my dir .\<close>,
  with the directory as it is, and the shell splits it into the two words \<^verbatim>\<open>my\<close> and
  \<^verbatim>\<open>dir\<close>; \<^verbatim>\<open>compress_and_encrypt\<close>, which quotes the directory, delivers the same
  directory as the single word \<^verbatim>\<open>my dir\<close>.
\<close>

theorem compress_directory_splits_directory:
  "compress_directory exec ''my dir'' (Some ''out.tar.gz'') ctf
     = run_command exec ''tar czf out.tar.gz -C my dir .'' ctf
   \<and> shell_words ''tar czf out.tar.gz -C my dir .''
     = Inr [''tar'', ''czf'', ''out.tar.gz'', ''-C'', ''my'', ''dir'', ''.'']
   \<and> compress_and_encrypt exec ''my dir'' None None ctf
     = run_command exec (''zip -r archive.zip 'my dir'' @ [sq]) ctf
   \<and> shell_words (''zip -r archive.zip 'my dir'' @ [sq])
     = Inr [''zip'', ''-r'', ''archive.zip'', ''my dir'']"
proof (intro conjI)
  show "compress_directory exec ''my dir'' (Some ''out.tar.gz'') ctf
     = run_command exec ''tar czf out.tar.gz -C my dir .'' ctf"
    by (simp add: compress_directory_def param_def Let_def)
  show "shell_words ''tar czf out.tar.gz -C my dir .''
     = Inr [''tar'', ''czf'', ''out.tar.gz'', ''-C'', ''my'', ''dir'', ''.'']"
    by (simp add: shell_eval)
  show "compress_and_encrypt exec ''my dir'' None None ctf
     = run_command exec (''zip -r archive.zip 'my dir'' @ [sq]) ctf"
    by (simp add: compress_and_encrypt_def param_def Let_def shlex_quote_def shlex_safe_def
        ascii_lowercase_def ascii_uppercase_def replace_char_def sq_def)
  show "shell_words (''zip -r archive.zip 'my dir'' @ [sq])
     = Inr [''zip'', ''-r'', ''archive.zip'', ''my dir'']"
    by (simp add: shell_eval)
qed

text \<open>
  C8. The remote command of \<^verbatim>\<open>ssh_exec\<close> is to reach the executor as one token after
  \<^verbatim>\<open>user@host\<close>. The builder wraps it in double quotes and escapes nothing: for the
  command \<^verbatim>\<open>echo "a b"\<close> the shell ends the quotation at the command's own first quote and
  delivers the two words \<^verbatim>\<open>echo a\<close> and \<^verbatim>\<open>b\<close>.
\<close>

theorem ssh_exec_splits_command:
  \<open>ssh_exec exec ''alice'' ''gateway'' ''echo "a b"'' None None ctf
     = run_command exec ''ssh -p 22 alice@gateway "echo "a b""'' ctf
   \<and> shell_words ''ssh -p 22 alice@gateway "echo "a b""''
     = Inr [''ssh'', ''-p'', ''22'', ''alice@gateway'', ''echo a'', ''b'']\<close>
proof (intro conjI)
  show \<open>ssh_exec exec ''alice'' ''gateway'' ''echo "a b"'' None None ctf
     = run_command exec ''ssh -p 22 alice@gateway "echo "a b""'' ctf\<close>
    by (simp add: ssh_exec_def param_def Let_def dq_def)
  show \<open>shell_words ''ssh -p 22 alice@gateway "echo "a b""''
     = Inr [''ssh'', ''-p'', ''22'', ''alice@gateway'', ''echo a'', ''b'']\<close>
    by (simp add: shell_eval)
qed

text \<open>
  C3. With a user, \<^verbatim>\<open>smb_list_shares\<close> puts the password into the \<^verbatim>\<open>-U\<close> string with every
  percent sign doubled: the escaped text holds no single percent sign, and reading
  \<^verbatim>\<open>%%\<close> as a literal percent sign gives the password back.
\<close>

theorem smb_password_percent_escaped:
  "(user \<noteq> [] \<longrightarrow>
      smb_list_shares exec host (Some user) password domain ctf
        = run_command exec
            (''smbclient -L //'' @ host @ '' -U ''
               @ (if param [] domain \<noteq> [] then param [] domain @ [backslash] else [])
               @ user @ ''%'' @ percent_escape (param [] password) @ '' -g'') ctf)
   \<and> percent_unescape (percent_escape (param [] password)) = Some (param [] password)"
proof (rule conjI)
  have "percent_escape [] = []"
    by (simp add: percent_escape_def replace_char_Nil)
  then show "user \<noteq> [] \<longrightarrow>
      smb_list_shares exec host (Some user) password domain ctf
        = run_command exec
            (''smbclient -L //'' @ host @ '' -U ''
               @ (if param [] domain \<noteq> [] then param [] domain @ [backslash] else [])
               @ user @ ''%'' @ percent_escape (param [] password) @ '' -g'') ctf"
    by (simp add: smb_list_shares_def param_def Let_def percent_escape_def)
  show "percent_unescape (percent_escape (param [] password)) = Some (param [] password)"
    by (rule percent_unescape_escape)
qed

theorem smb_password_percent_escaped_witness:
  "''alice'' \<noteq> []
   \<and> smb_list_shares failing_executor ''10.0.0.5'' (Some ''alice'') (Some ''p%ss'') None
        (None :: unit option)
      = run_command failing_executor ''smbclient -L //10.0.0.5 -U alice%p%%ss -g'' None
   \<and> percent_unescape ''p%%ss'' = Some ''p%ss''"
proof -
  have e: "percent_escape ''p%ss'' = ''p%%ss''"
    by (simp add: percent_escape_def replace_char_def)
  from smb_password_percent_escaped [where user = "''alice''" and exec = failing_executor
      and host = "''10.0.0.5''" and password = "Some ''p%ss''" and domain = None
      and ctf = "None :: unit option"]
  show ?thesis
    by (simp add: param_def e)
qed

end
